theory Spec2Isabelle
  imports Complex_Main
begin

section \<open>Strings and Python values\<close>

text \<open>
  Python strings are modelled as HOL strings over ASCII. \<open>lower\<close> is \<^verbatim>\<open>str.lower\<close>
  on ASCII strings: the letters A to Z are mapped to a to z and every other character is
  left as it is. On a string with a character outside ASCII, \<^verbatim>\<open>str.lower\<close> follows the
  Unicode case mapping and \<open>lower\<close> does not: \<open>is_ascii\<close> marks the strings on which the
  two agree. The keys of the token table and \<^verbatim>\<open>get\<close> are ASCII, and no string with a
  character outside ASCII is lower-cased by Python to one of them; header names are taken
  to be ASCII.
\<close>

definition is_ascii :: "string \<Rightarrow> bool" where
  "is_ascii s = list_all (\<lambda>c. \<not> digit7 c) s"

definition lower_char :: "char \<Rightarrow> char" where
  "lower_char c =
     (case map_of (zip ''ABCDEFGHIJKLMNOPQRSTUVWXYZ'' ''abcdefghijklmnopqrstuvwxyz'') c of
        Some d \<Rightarrow> d
      | None \<Rightarrow> c)"

definition lower :: "string \<Rightarrow> string" where
  "lower s = map lower_char s"

text \<open>\<^verbatim>\<open>str.upper\<close> on ASCII strings, in the same way.\<close>

definition upper_char :: "char \<Rightarrow> char" where
  "upper_char c =
     (case map_of (zip ''abcdefghijklmnopqrstuvwxyz'' ''ABCDEFGHIJKLMNOPQRSTUVWXYZ'') c of
        Some d \<Rightarrow> d
      | None \<Rightarrow> c)"

definition upper :: "string \<Rightarrow> string" where
  "upper s = map upper_char s"

text \<open>\<^verbatim>\<open>s.startswith(p)\<close>\<close>

definition startswith :: "string \<Rightarrow> string \<Rightarrow> bool" where
  "startswith s p = (take (length p) s = p)"

text \<open>
  The values \<^verbatim>\<open>response.json()\<close> can return: \<^verbatim>\<open>None\<close>, booleans, integers, floats,
  strings, lists and dictionaries with string keys (an association list; a key is looked
  up with \<open>map_of\<close>). Floats are carried as reals; the non-finite floats are not
  represented.
\<close>

datatype pyvalue =
    PyNone
  | PyBool bool
  | PyInt int
  | PyFloat real
  | PyStr string
  | PyList "pyvalue list"
  | PyDict "(string \<times> pyvalue) list"

text \<open>Python truthiness, as used by \<^verbatim>\<open>data and ...\<close>.\<close>

fun truthy :: "pyvalue \<Rightarrow> bool" where
  "truthy PyNone = False"
| "truthy (PyBool b) = b"
| "truthy (PyInt i) = (i \<noteq> 0)"
| "truthy (PyFloat x) = (x \<noteq> 0)"
| "truthy (PyStr s) = (s \<noteq> [])"
| "truthy (PyList xs) = (xs \<noteq> [])"
| "truthy (PyDict kvs) = (kvs \<noteq> [])"

text \<open>\<^verbatim>\<open>d.get(k)\<close> on a dictionary: the value, or \<^verbatim>\<open>None\<close> when the key is missing.\<close>

definition dict_get :: "(string \<times> pyvalue) list \<Rightarrow> string \<Rightarrow> pyvalue" where
  "dict_get kvs k = (case map_of kvs k of None \<Rightarrow> PyNone | Some v \<Rightarrow> v)"

section \<open>Case-insensitive header dictionaries\<close>

text \<open>
  Both \<^verbatim>\<open>session.headers\<close> and \<^verbatim>\<open>response.headers\<close> are case-insensitive
  dictionaries: the store is keyed by the lower-cased name and keeps the name as it was
  last written together with the value.
\<close>

type_synonym cidict = "string \<rightharpoonup> string \<times> string"

definition ci_contains :: "cidict \<Rightarrow> string \<Rightarrow> bool" where
  "ci_contains d k = (d (lower k) \<noteq> None)"

text \<open>\<^verbatim>\<open>d[k]\<close>; \<open>None\<close> stands for the \<^verbatim>\<open>KeyError\<close> of a missing key.\<close>

definition ci_getitem :: "cidict \<Rightarrow> string \<Rightarrow> string option" where
  "ci_getitem d k = map_option snd (d (lower k))"

text \<open>\<^verbatim>\<open>d.get(k)\<close>; \<open>None\<close> is Python's \<^verbatim>\<open>None\<close>.\<close>

definition ci_get :: "cidict \<Rightarrow> string \<Rightarrow> string option" where
  "ci_get d k = map_option snd (d (lower k))"

text \<open>\<^verbatim>\<open>d[k] = v\<close>\<close>

definition ci_setitem :: "cidict \<Rightarrow> string \<Rightarrow> string \<Rightarrow> cidict" where
  "ci_setitem d k v = d(lower k \<mapsto> (k, v))"

section \<open>Responses, errors and the transport\<close>

text \<open>
  What \<^verbatim>\<open>response.json()\<close> does: it returns the decoded body, or raises the
  \<^verbatim>\<open>JSONDecodeError\<close> imported at line 11, or raises an exception of another class
  (named by a string), as \<^verbatim>\<open>RecursionError\<close> on a body nested too deep, a plain
  \<^verbatim>\<open>ValueError\<close>, or the decode error of another JSON library.
\<close>

datatype json_outcome =
    Decoded pyvalue
  | JSONDecodeError
  | Raised string

text \<open>
  A response of the transport: its status code, its headers, its raw body and the outcome
  of \<^verbatim>\<open>response.json()\<close>.
\<close>

record response =
  status_code :: int
  headers :: cidict
  content :: string
  json :: json_outcome

text \<open>
  What a call can raise: an error of the transport (of an arbitrary type \<open>'e\<close>, passed on
  as it is), the \<^verbatim>\<open>KeyError\<close> of a header lookup, the \<^verbatim>\<open>AttributeError\<close> of calling
  \<^verbatim>\<open>.get\<close> on a value that is no dictionary, an exception of \<^verbatim>\<open>response.json()\<close> that
  line 132 does not catch, and the exception built from a status code.
\<close>

datatype 'e error =
    TransportError 'e
  | KeyError string
  | AttributeError
  | JsonRaised string
  | HTTPException int response pyvalue

text \<open>
  Modelled from the spec: \<^verbatim>\<open>get_exception_from_status_code\<close> lives in the module
  \<^verbatim>\<open>exceptions\<close>, which is not among the source files. The spec describes it as a lookup
  from a status code to a constructor that takes the response and the errors and yields a
  Domain Error carrying the status code, the optional error entries and the originating
  response.
\<close>

definition get_exception_from_status_code :: "int \<Rightarrow> response \<Rightarrow> pyvalue \<Rightarrow> 'e error" where
  "get_exception_from_status_code code r errs = HTTPException code r errs"

text \<open>\<^verbatim>\<open>_xcsrf_allowed_methods\<close> (lines 19 to 24).\<close>

definition xcsrf_allowed_methods :: "string \<rightharpoonup> bool" where
  "xcsrf_allowed_methods =
     map_of [(''post'', True), (''put'', True), (''patch'', True), (''delete'', True)]"

text \<open>
  The keyword arguments of a call. \<open>handle_xcsrf_token\<close> and \<open>skip_roblox\<close> are popped
  by \<^verbatim>\<open>request\<close> (defaults \<^verbatim>\<open>True\<close> and \<^verbatim>\<open>False\<close>); \<open>stream\<close> is read and left in
  place (default \<^verbatim>\<open>False\<close>); \<open>args\<close> is everything else, positional or keyword (URL,
  body, per-call headers), which \<^verbatim>\<open>request\<close> never looks at. The three flags are the
  truth values of the Python objects passed.
\<close>

record 'a kwargs =
  args :: 'a
  stream :: bool
  handle_xcsrf_token :: bool
  skip_roblox :: bool

definition default_kwargs :: "'a \<Rightarrow> 'a kwargs" where
  "default_kwargs a =
     \<lparr>args = a, stream = False, handle_xcsrf_token = True, skip_roblox = False\<rparr>"

text \<open>
  What \<^verbatim>\<open>self.session.request(method, *args, **kwargs)\<close> is called with: the arguments
  handed to the transport session, before the transport turns them into a request line.
\<close>

record 'a wire =
  w_method :: string
  w_args :: 'a
  w_stream :: bool

text \<open>
  The method that reaches the server. This is the doing of the \<^verbatim>\<open>requests\<close> library,
  outside the source: \<^verbatim>\<open>Session.request\<close> builds its request with
  \<^verbatim>\<open>method.upper()\<close>, so the request line carries the upper-cased argument.
\<close>

definition sent_method :: "'a wire \<Rightarrow> string" where
  "sent_method w = upper (w_method w)"

text \<open>
  The transport (\<^verbatim>\<open>requests.Session.request\<close> behind \<^verbatim>\<open>CleanAsyncClient.request\<close>) is a
  parameter. It reads the default headers of the session and its own state \<open>'net\<close>
  (cookie jar, connections, the remote server), and either fails with a transport error or
  returns a response, together with its new state. It does not write the default headers.
\<close>

type_synonym ('a, 'e, 'net) transport =
  "cidict \<Rightarrow> 'net \<Rightarrow> 'a wire \<Rightarrow> ('e + response) \<times> 'net"

text \<open>
  The state of a \<^verbatim>\<open>Requests\<close> object: the name of the token header, the default headers
  of its session and the state of the transport. The field \<open>trace\<close> is a history variable
  that is not in the source: every call of the transport appends what it was called with
  and what it produced. No branch of the model reads it.
\<close>

record ('a, 'e, 'net) requests =
  xcsrf_token_name :: string
  session_headers :: cidict
  net :: 'net
  trace :: "('a wire \<times> ('e + response)) list"

text \<open>\<^verbatim>\<open>Requests.__init__\<close> (lines 66 to 89), given the headers and state of the session.\<close>

definition init :: "cidict \<Rightarrow> 'net \<Rightarrow> string \<Rightarrow> ('a, 'e, 'net) requests" where
  "init hdrs n name =
     \<lparr>xcsrf_token_name = name,
      session_headers =
        ci_setitem (ci_setitem hdrs ''User-Agent'' ''Roblox/WinInet'') ''Referer'' ''www.roblox.com'',
      net = n,
      trace = []\<rparr>"

text \<open>\<^verbatim>\<open>CleanAsyncClient.request\<close> (lines 41 and 42): one call of the transport.\<close>

definition session_request ::
  "('a, 'e, 'net) transport \<Rightarrow> 'a wire \<Rightarrow> ('a, 'e, 'net) requests
     \<Rightarrow> ('e + response) \<times> ('a, 'e, 'net) requests" where
  "session_request T w self =
     (case T (session_headers self) (net self) w of
        (res, n) \<Rightarrow> (res, self\<lparr>net := n, trace := trace self @ [(w, res)]\<rparr>))"

section \<open>The dispatcher\<close>

text \<open>
  Lines 115 to 118 of \<^verbatim>\<open>Requests.request\<close>: the token is copied into the default headers
  of the session and a 403 is sent again.
\<close>

definition request_token_step ::
  "('a, 'e, 'net) transport \<Rightarrow> 'a wire \<Rightarrow> 'a kwargs \<Rightarrow> response \<Rightarrow> ('a, 'e, 'net) requests
     \<Rightarrow> ('e error + response) \<times> ('a, 'e, 'net) requests" where
  "request_token_step T w kw response self =
     (if handle_xcsrf_token kw
         \<and> ci_contains (headers response) (xcsrf_token_name self)
         \<and> xcsrf_allowed_methods (w_method w) = Some True
      then
        (case ci_getitem (headers response) (xcsrf_token_name self) of
           None \<Rightarrow> (Inl (KeyError (xcsrf_token_name self)), self)
         | Some token \<Rightarrow>
             (let self' = self\<lparr>session_headers :=
                            ci_setitem (session_headers self) (xcsrf_token_name self) token\<rparr>
              in if status_code response = 403
                 then (case session_request T w self' of
                         (Inl e, self'') \<Rightarrow> (Inl (TransportError e), self'')
                       | (Inr response', self'') \<Rightarrow> (Inr response', self''))
                 else (Inr response, self')))
      else (Inr response, self))"

text \<open>
  Line 134, \<^verbatim>\<open>data and data.get("errors")\<close>: a falsy value is passed on as it is, a
  dictionary gives its entry, and any other value has no \<^verbatim>\<open>.get\<close>.
\<close>

definition data_errors :: "pyvalue \<Rightarrow> 'e error + pyvalue" where
  "data_errors data =
     (if truthy data
      then (case data of
              PyDict kvs \<Rightarrow> Inr (dict_get kvs ''errors'')
            | _ \<Rightarrow> Inl AttributeError)
      else Inr data)"

text \<open>
  Lines 126 to 134: the errors taken from the body of a failed response. Of the
  exceptions of \<^verbatim>\<open>response.json()\<close>, only \<^verbatim>\<open>JSONDecodeError\<close> is caught (lines 130 to
  133) and leaves \<^verbatim>\<open>data\<close> at \<^verbatim>\<open>None\<close>; any other leaves the call.
\<close>

definition request_errors :: "response \<Rightarrow> 'e error + pyvalue" where
  "request_errors response =
     (case ci_get (headers response) ''Content-Type'' of
        None \<Rightarrow> Inr PyNone
      | Some content_type \<Rightarrow>
          if content_type \<noteq> [] \<and> startswith content_type ''application/json''
          then (case json response of
                  Decoded v \<Rightarrow> data_errors v
                | JSONDecodeError \<Rightarrow> data_errors PyNone
                | Raised x \<Rightarrow> Inl (JsonRaised x))
          else Inr PyNone)"

text \<open>Lines 120 to 142: the streamed exit, the raised exception, the plain return.\<close>

definition request_translate :: "'a kwargs \<Rightarrow> response \<Rightarrow> 'e error + response" where
  "request_translate kw response =
     (if stream kw then Inr response
      else if status_code response \<ge> 400
      then (case request_errors response of
              Inl e \<Rightarrow> Inl e
            | Inr errors \<Rightarrow>
                Inl (get_exception_from_status_code (status_code response) response errors))
      else Inr response)"

text \<open>\<^verbatim>\<open>Requests.request\<close> (lines 91 to 142).\<close>

definition request ::
  "('a, 'e, 'net) transport \<Rightarrow> string \<Rightarrow> 'a kwargs \<Rightarrow> ('a, 'e, 'net) requests
     \<Rightarrow> ('e error + response) \<times> ('a, 'e, 'net) requests" where
  "request T method kw self =
     (let w = \<lparr>w_method = lower method, w_args = args kw, w_stream = stream kw\<rparr>
      in case session_request T w self of
           (Inl e, self1) \<Rightarrow> (Inl (TransportError e), self1)
         | (Inr response, self1) \<Rightarrow>
             if skip_roblox kw then (Inr response, self1)
             else (case request_token_step T w kw response self1 of
                     (Inl e, self2) \<Rightarrow> (Inl e, self2)
                   | (Inr response', self2) \<Rightarrow> (request_translate kw response', self2)))"

text \<open>The wrappers, one per verb (lines 144 to 192).\<close>

definition get ::
  "('a, 'e, 'net) transport \<Rightarrow> 'a kwargs \<Rightarrow> ('a, 'e, 'net) requests
     \<Rightarrow> ('e error + response) \<times> ('a, 'e, 'net) requests" where
  "get T kw self = request T ''GET'' kw self"

definition post ::
  "('a, 'e, 'net) transport \<Rightarrow> 'a kwargs \<Rightarrow> ('a, 'e, 'net) requests
     \<Rightarrow> ('e error + response) \<times> ('a, 'e, 'net) requests" where
  "post T kw self = request T ''POST'' kw self"

definition put ::
  "('a, 'e, 'net) transport \<Rightarrow> 'a kwargs \<Rightarrow> ('a, 'e, 'net) requests
     \<Rightarrow> ('e error + response) \<times> ('a, 'e, 'net) requests" where
  "put T kw self = request T ''PUT'' kw self"

definition patch ::
  "('a, 'e, 'net) transport \<Rightarrow> 'a kwargs \<Rightarrow> ('a, 'e, 'net) requests
     \<Rightarrow> ('e error + response) \<times> ('a, 'e, 'net) requests" where
  "patch T kw self = request T ''PATCH'' kw self"

definition delete ::
  "('a, 'e, 'net) transport \<Rightarrow> 'a kwargs \<Rightarrow> ('a, 'e, 'net) requests
     \<Rightarrow> ('e error + response) \<times> ('a, 'e, 'net) requests" where
  "delete T kw self = request T ''DELETE'' kw self"

section \<open>A scripted transport and sample responses\<close>

text \<open>
  A transport whose state is the list of outcomes still to be delivered: each call
  delivers the next one, and a connection error once the list is used up.
\<close>

definition scripted :: "(string, string, (string + response) list) transport" where
  "scripted hdrs q w =
     (case q of [] \<Rightarrow> (Inl ''ConnectionError'', []) | r # q' \<Rightarrow> (r, q'))"

definition mk_response :: "int \<Rightarrow> (string \<times> string) list \<Rightarrow> json_outcome \<Rightarrow> response" where
  "mk_response code hs j =
     \<lparr>status_code = code,
      headers = foldl (\<lambda>d (k, v). ci_setitem d k v) Map.empty hs,
      content = [],
      json = j\<rparr>"

definition client :: "(string + response) list \<Rightarrow> (string, string, (string + response) list) requests" where
  "client q = init Map.empty q ''X-CSRF-Token''"

text \<open>Sample responses: with and without the token header, and failed ones with a body.\<close>

definition forbidden_with_token :: response where
  "forbidden_with_token = mk_response 403 [(''X-CSRF-Token'', ''abc'')] JSONDecodeError"

definition forbidden_plain :: response where
  "forbidden_plain = mk_response 403 [] JSONDecodeError"

definition ok_with_token :: response where
  "ok_with_token = mk_response 200 [(''X-CSRF-Token'', ''xyz'')] JSONDecodeError"

definition ok_plain :: response where
  "ok_plain = mk_response 200 [] JSONDecodeError"

definition server_error_with_token :: response where
  "server_error_with_token = mk_response 500 [(''x-csrf-token'', ''abc'')] JSONDecodeError"

definition server_error_json :: response where
  "server_error_json =
     mk_response 500 [(''Content-Type'', ''application/json'')]
       (Decoded (PyDict [(''errors'',
                PyList [PyDict [(''code'', PyInt 1), (''message'', PyStr ''x'')]])]))"

definition server_error_malformed :: response where
  "server_error_malformed = mk_response 500 [(''Content-Type'', ''application/json'')] JSONDecodeError"

definition server_error_list :: response where
  "server_error_list =
     mk_response 500 [(''Content-Type'', ''application/json'')] (Decoded (PyList [PyInt 1]))"

definition server_error_deep :: response where
  "server_error_deep =
     mk_response 500 [(''Content-Type'', ''application/json'')] (Raised ''RecursionError'')"

section \<open>Basic facts\<close>

lemmas step_defs =
  Let_def request_def request_token_step_def session_request_def request_translate_def

lemmas eval_defs =
  step_defs request_errors_def get_exception_from_status_code_def
  scripted_def client_def init_def mk_response_def default_kwargs_def
  ci_contains_def ci_getitem_def ci_get_def ci_setitem_def lower_def lower_char_def
  xcsrf_allowed_methods_def startswith_def dict_get_def data_errors_def

lemmas sample_defs =
  forbidden_with_token_def forbidden_plain_def ok_with_token_def ok_plain_def
  server_error_with_token_def server_error_json_def server_error_malformed_def
  server_error_list_def server_error_deep_def

lemma lower_char_idem: "lower_char (lower_char c) = lower_char c"
  by (simp add: lower_char_def)

lemma lower_idem: "lower (lower s) = lower s"
  by (simp add: lower_def lower_char_idem)

lemma upper_char_lower_char: "upper_char (lower_char c) = upper_char c"
  by (simp add: lower_char_def upper_char_def)

lemma upper_lower: "upper (lower s) = upper s"
  by (simp add: lower_def upper_def upper_char_lower_char)

lemma ci_getitem_setitem: "ci_getitem (ci_setitem d k v) k = Some v"
  by (simp add: ci_getitem_def ci_setitem_def)

lemma ci_contains_getitem: "ci_contains d k \<longleftrightarrow> (\<exists>v. ci_getitem d k = Some v)"
  by (auto simp: ci_contains_def ci_getitem_def)

lemma get_not_allowed: "xcsrf_allowed_methods ''get'' = None"
  by (simp add: xcsrf_allowed_methods_def)

lemma session_request_trace:
  "session_request T w self = (res, self') \<Longrightarrow>
     trace self' = trace self @ [(w, res)]
     \<and> session_headers self' = session_headers self
     \<and> xcsrf_token_name self' = xcsrf_token_name self"
  by (auto simp: session_request_def split: prod.splits)

text \<open>The header lookup of line 116 is guarded by line 115: it never raises.\<close>

lemma request_errors_no_KeyError: "request_errors r \<noteq> Inl (KeyError k)"
  by (simp add: request_errors_def data_errors_def
           split: option.splits pyvalue.splits json_outcome.splits)

lemma request_translate_no_KeyError: "request_translate kw r \<noteq> Inl (KeyError k)"
  using request_errors_no_KeyError [of r k]
  by (auto simp: request_translate_def get_exception_from_status_code_def split: sum.splits)

lemma request_token_step_no_KeyError:
  "request_token_step T w kw r self \<noteq> (Inl (KeyError k), self')"
  by (auto simp: request_token_step_def Let_def ci_contains_def ci_getitem_def
           split: prod.splits sum.splits option.splits)

lemma request_no_KeyError: "fst (request T method kw self) \<noteq> Inl (KeyError k)"
  by (auto simp: request_def Let_def request_token_step_no_KeyError
        request_translate_no_KeyError split: prod.splits sum.splits)

text \<open>A call makes one or two calls of the transport, never more.\<close>

lemma request_trace_length:
  "length (trace (snd (request T method kw self))) = length (trace self) + 1
   \<or> length (trace (snd (request T method kw self))) = length (trace self) + 2"
  by (auto simp: step_defs split: prod.splits sum.splits if_splits option.splits)

text \<open>A first response below 400 is returned as it is.\<close>

lemma request_success_returned:
  "session_request T \<lparr>w_method = lower method, w_args = args kw, w_stream = stream kw\<rparr> self
     = (Inr r, sent) \<Longrightarrow>
   status_code r < 400 \<Longrightarrow>
   fst (request T method kw self) = Inr r"
  by (auto simp: step_defs ci_contains_def ci_getitem_def
           split: prod.splits sum.splits if_splits option.splits)

text \<open>
  The example of a failed response with a JSON body that is a dictionary: the exception
  carries the status code, the response and the list under \<^verbatim>\<open>errors\<close>.
\<close>

lemma request_server_error_json:
  "fst (request scripted ''GET'' (default_kwargs ''u'') (client [Inr server_error_json]))
   = Inl (HTTPException 500 server_error_json
            (PyList [PyDict [(''code'', PyInt 1), (''message'', PyStr ''x'')]]))"
  by (simp add: eval_defs sample_defs)

text \<open>
  What lines 120 to 142 do with a failed response, case by case: the exception carries
  the status code, the response and the entry \<^verbatim>\<open>errors\<close> of a body that is a
  dictionary, and no errors when the content type is not JSON.
\<close>

lemma request_translate_success:
  "status_code r < 400 \<Longrightarrow> request_translate kw r = Inr r"
  by (simp add: request_translate_def)

lemma request_translate_dict:
  "\<not> stream kw \<Longrightarrow> 400 \<le> status_code r \<Longrightarrow>
   ci_get (headers r) ''Content-Type'' = Some ct \<Longrightarrow> startswith ct ''application/json'' \<Longrightarrow>
   json r = Decoded (PyDict kvs) \<Longrightarrow> kvs \<noteq> [] \<Longrightarrow>
   request_translate kw r = Inl (HTTPException (status_code r) r (dict_get kvs ''errors''))"
  by (auto simp: request_translate_def request_errors_def data_errors_def
                 get_exception_from_status_code_def startswith_def)

lemma request_translate_not_json:
  "\<not> stream kw \<Longrightarrow> 400 \<le> status_code r \<Longrightarrow>
   (\<forall>ct. ci_get (headers r) ''Content-Type'' = Some ct \<longrightarrow> \<not> startswith ct ''application/json'') \<Longrightarrow>
   request_translate kw r = Inl (HTTPException (status_code r) r PyNone)"
  by (auto simp: request_translate_def request_errors_def get_exception_from_status_code_def
           split: option.splits)

section \<open>The claims\<close>

subsection \<open>C1: a rejected token is sent again once\<close>

text \<open>
  Claim C1, as amended. For every call with \<open>handle_xcsrf_token\<close> enabled and
  \<open>skip_roblox\<close> not set, on an unsafe method (POST, PUT, PATCH, DELETE), a first response
  with status 403 that carries the token header triggers exactly one resend of the
  identical request through the transport: the trace grows by two entries with the same
  request. The outcome of the resend is the effective one: a transport error is passed
  on, and a response goes through the remaining steps (lines 120 to 142) whatever its
  status, so a second 403 is not sent again.
\<close>

theorem forbidden_token_resends_once:
  assumes "handle_xcsrf_token kw" and "\<not> skip_roblox kw"
    and "xcsrf_allowed_methods (lower method) = Some True"
    and "w = \<lparr>w_method = lower method, w_args = args kw, w_stream = stream kw\<rparr>"
    and "session_request T w self = (Inr first, sent)"
    and "status_code first = 403"
    and "ci_contains (headers first) (xcsrf_token_name self)"
    and "request T method kw self = (res, self')"
  shows "trace self' = trace self @ [(w, Inr first), (w, snd (last (trace self')))]
         \<and> res = (case snd (last (trace self')) of
                    Inl e \<Rightarrow> Inl (TransportError e)
                  | Inr resent \<Rightarrow> request_translate kw resent)"
  using assms
  by (auto simp: Let_def request_def request_token_step_def session_request_def
                 ci_contains_def ci_getitem_def
           split: prod.splits sum.splits if_splits option.splits)

text \<open>
  A POST answered twice by a 403 with the token header: two calls of the transport, and
  the second 403 is raised as the exception of its status.
\<close>

theorem forbidden_token_resends_once_witness:
  "handle_xcsrf_token (default_kwargs ''u'')
   \<and> \<not> skip_roblox (default_kwargs ''u'')
   \<and> xcsrf_allowed_methods (lower ''POST'') = Some True
   \<and> status_code forbidden_with_token = 403
   \<and> ci_contains (headers forbidden_with_token) ''X-CSRF-Token''
   \<and> map snd (trace (snd (request scripted ''POST'' (default_kwargs ''u'')
        (client [Inr forbidden_with_token, Inr forbidden_with_token, Inr ok_plain]))))
      = [Inr forbidden_with_token, Inr forbidden_with_token]
   \<and> fst (request scripted ''POST'' (default_kwargs ''u'')
        (client [Inr forbidden_with_token, Inr forbidden_with_token, Inr ok_plain]))
      = Inl (HTTPException 403 forbidden_with_token PyNone)"
proof -
  let ?kw = "default_kwargs ''u'' :: string kwargs"
  let ?self = "client [Inr forbidden_with_token, Inr forbidden_with_token, Inr ok_plain]"
  let ?w = "\<lparr>w_method = lower ''POST'', w_args = args ?kw, w_stream = stream ?kw\<rparr>"
  have a: "handle_xcsrf_token ?kw" and b: "\<not> skip_roblox ?kw"
    by (simp_all add: default_kwargs_def)
  have c: "xcsrf_allowed_methods (lower ''POST'') = Some True"
    by (simp add: xcsrf_allowed_methods_def lower_def lower_char_def)
  have d: "session_request scripted ?w ?self
             = (Inr forbidden_with_token, snd (session_request scripted ?w ?self))"
    by (simp add: session_request_def scripted_def client_def init_def)
  have e: "status_code forbidden_with_token = 403"
    by (simp add: sample_defs mk_response_def)
  have f: "ci_contains (headers forbidden_with_token) ''X-CSRF-Token''"
    by (simp add: eval_defs sample_defs)
  have f': "ci_contains (headers forbidden_with_token) (xcsrf_token_name ?self)"
    using f by (simp add: client_def init_def)
  have g: "request scripted ''POST'' ?kw ?self
             = (fst (request scripted ''POST'' ?kw ?self), snd (request scripted ''POST'' ?kw ?self))"
    by simp
  note run = forbidden_token_resends_once [OF a b c refl d e f' g]
  have ev: "map snd (trace (snd (request scripted ''POST'' ?kw ?self)))
              = [Inr forbidden_with_token, Inr forbidden_with_token]
            \<and> fst (request scripted ''POST'' ?kw ?self)
              = Inl (HTTPException 403 forbidden_with_token PyNone)"
    by (simp add: eval_defs sample_defs)
  from run a b c e f ev show ?thesis by blast
qed

text \<open>
  Claim C1 as it is written fails: a POST with token handling enabled whose 403 response
  carries no token header is not sent again. The transport is called once, although a
  second response was ready.
\<close>

theorem forbidden_without_token_not_resent:
  "handle_xcsrf_token (default_kwargs ''u'')
   \<and> xcsrf_allowed_methods (lower ''POST'') = Some True
   \<and> status_code forbidden_plain = 403
   \<and> map snd (trace (snd (request scripted ''POST'' (default_kwargs ''u'')
        (client [Inr forbidden_plain, Inr ok_plain])))) = [Inr forbidden_plain]
   \<and> fst (request scripted ''POST'' (default_kwargs ''u'')
        (client [Inr forbidden_plain, Inr ok_plain]))
      = Inl (HTTPException 403 forbidden_plain PyNone)"
  by (simp add: eval_defs sample_defs)

subsection \<open>C2: the token of the response is stored in the session\<close>

text \<open>
  Claim C2, as amended. For every call on an unsafe method (POST, PUT, PATCH, DELETE) with
  \<open>handle_xcsrf_token\<close> enabled and \<open>skip_roblox\<close> not set, if the first response carries
  the token header then, when the call ends, the default headers of the session are the
  ones before the call with the token header set to that value. This holds for every
  status code and every outcome of the call, a raised exception included.
\<close>

theorem token_captured_unless_skipped:
  assumes "handle_xcsrf_token kw" and "\<not> skip_roblox kw"
    and "xcsrf_allowed_methods (lower method) = Some True"
    and "session_request T \<lparr>w_method = lower method, w_args = args kw, w_stream = stream kw\<rparr> self
           = (Inr first, sent)"
    and "ci_getitem (headers first) (xcsrf_token_name self) = Some token"
    and "request T method kw self = (res, self')"
  shows "session_headers self' = ci_setitem (session_headers self) (xcsrf_token_name self) token
         \<and> ci_getitem (session_headers self') (xcsrf_token_name self) = Some token"
  using assms
  by (auto simp: Let_def request_def request_token_step_def session_request_def
                 ci_contains_def ci_getitem_def ci_setitem_def
           split: prod.splits sum.splits if_splits option.splits)

text \<open>
  A DELETE answered by a 500 that carries the token header: the call raises the exception
  of status 500 and the token is in the session all the same.
\<close>

theorem token_captured_unless_skipped_witness:
  "handle_xcsrf_token (default_kwargs ''u'')
   \<and> \<not> skip_roblox (default_kwargs ''u'')
   \<and> xcsrf_allowed_methods (lower ''DELETE'') = Some True
   \<and> ci_getitem (headers server_error_with_token) ''X-CSRF-Token'' = Some ''abc''
   \<and> fst (request scripted ''DELETE'' (default_kwargs ''u'') (client [Inr server_error_with_token]))
      = Inl (HTTPException 500 server_error_with_token PyNone)
   \<and> ci_getitem (session_headers (snd (request scripted ''DELETE'' (default_kwargs ''u'')
        (client [Inr server_error_with_token])))) ''X-CSRF-Token'' = Some ''abc''"
proof -
  let ?kw = "default_kwargs ''u'' :: string kwargs"
  let ?self = "client [Inr server_error_with_token]"
  let ?w = "\<lparr>w_method = lower ''DELETE'', w_args = args ?kw, w_stream = stream ?kw\<rparr>"
  let ?run = "request scripted ''DELETE'' ?kw ?self"
  have a: "handle_xcsrf_token ?kw" and b: "\<not> skip_roblox ?kw"
    by (simp_all add: default_kwargs_def)
  have c: "xcsrf_allowed_methods (lower ''DELETE'') = Some True"
    by (simp add: xcsrf_allowed_methods_def lower_def lower_char_def)
  have d: "session_request scripted ?w ?self
             = (Inr server_error_with_token, snd (session_request scripted ?w ?self))"
    by (simp add: session_request_def scripted_def client_def init_def)
  have n: "xcsrf_token_name ?self = ''X-CSRF-Token''"
    by (simp add: client_def init_def)
  have e: "ci_getitem (headers server_error_with_token) ''X-CSRF-Token'' = Some ''abc''"
    by (simp add: eval_defs sample_defs)
  have e': "ci_getitem (headers server_error_with_token) (xcsrf_token_name ?self) = Some ''abc''"
    using e n by simp
  have g: "?run = (fst ?run, snd ?run)"
    by simp
  note run = token_captured_unless_skipped [OF a b c d e' g]
  have ev: "fst ?run = Inl (HTTPException 500 server_error_with_token PyNone)"
    by (simp add: eval_defs sample_defs)
  from run [unfolded n]
  have "ci_getitem (session_headers (snd ?run)) ''X-CSRF-Token'' = Some ''abc''"
    by blast
  with a b c e ev show ?thesis by blast
qed

text \<open>
  Claim C2 as it is written fails: with \<open>skip_roblox\<close> set, a POST with token handling
  enabled whose response carries the token header returns before line 115, and the
  session has no token header afterwards.
\<close>

theorem skip_roblox_no_token_capture:
  "handle_xcsrf_token ((default_kwargs ''u'')\<lparr>skip_roblox := True\<rparr>)
   \<and> xcsrf_allowed_methods (lower ''POST'') = Some True
   \<and> ci_getitem (headers ok_with_token) ''X-CSRF-Token'' = Some ''xyz''
   \<and> fst (request scripted ''POST'' ((default_kwargs ''u'')\<lparr>skip_roblox := True\<rparr>)
        (client [Inr ok_with_token])) = Inr ok_with_token
   \<and> ci_getitem (session_headers (snd (request scripted ''POST''
        ((default_kwargs ''u'')\<lparr>skip_roblox := True\<rparr>)
        (client [Inr ok_with_token])))) ''X-CSRF-Token'' = None"
  by (simp add: eval_defs sample_defs)

subsection \<open>C3: GET is exempt\<close>

text \<open>
  Claim C3. For every call with method GET, in any letter case, the default headers of
  the session after the call are the ones before it, whatever the response carries and
  whatever its status, and the transport is called exactly once: no token is captured and
  nothing is sent again.
\<close>

theorem get_leaves_headers:
  assumes "lower method = ''get''" and "request T method kw self = (res, self')"
  shows "session_headers self' = session_headers self
         \<and> trace self' = trace self @
             [(\<lparr>w_method = ''get'', w_args = args kw, w_stream = stream kw\<rparr>,
               snd (last (trace self')))]"
  using assms
  by (auto simp: step_defs get_not_allowed split: prod.splits sum.splits if_splits)

text \<open>
  A GET answered by a 403 that carries the token header: one call of the transport, and
  the session has no token header afterwards.
\<close>

theorem get_leaves_headers_witness:
  "lower ''GET'' = ''get''
   \<and> status_code forbidden_with_token = 403
   \<and> ci_contains (headers forbidden_with_token) ''X-CSRF-Token''
   \<and> session_headers (snd (request scripted ''GET'' (default_kwargs ''u'')
        (client [Inr forbidden_with_token, Inr ok_plain])))
      = session_headers (client [Inr forbidden_with_token, Inr ok_plain])
   \<and> ci_getitem (session_headers (snd (request scripted ''GET'' (default_kwargs ''u'')
        (client [Inr forbidden_with_token, Inr ok_plain])))) ''X-CSRF-Token'' = None
   \<and> map snd (trace (snd (request scripted ''GET'' (default_kwargs ''u'')
        (client [Inr forbidden_with_token, Inr ok_plain])))) = [Inr forbidden_with_token]"
proof -
  let ?kw = "default_kwargs ''u'' :: string kwargs"
  let ?self = "client [Inr forbidden_with_token, Inr ok_plain]"
  let ?run = "request scripted ''GET'' ?kw ?self"
  have a: "lower ''GET'' = ''get''"
    by (simp add: lower_def lower_char_def)
  have g: "?run = (fst ?run, snd ?run)"
    by simp
  note run = get_leaves_headers [OF a g]
  have e: "status_code forbidden_with_token = 403"
    by (simp add: sample_defs mk_response_def)
  have f: "ci_contains (headers forbidden_with_token) ''X-CSRF-Token''"
    by (simp add: eval_defs sample_defs)
  have ev: "ci_getitem (session_headers (snd ?run)) ''X-CSRF-Token'' = None
            \<and> map snd (trace (snd ?run)) = [Inr forbidden_with_token]"
    by (simp add: eval_defs sample_defs)
  from run a e f ev show ?thesis by blast
qed

subsection \<open>C4: no handling when the translation is skipped\<close>

text \<open>
  Claim C4. For every call with \<open>skip_roblox\<close> set, the transport is called exactly
  once, with the request of the call, and what it produced is what the call produces: a
  response is returned as it is, for every status code, and an error of the transport is
  passed on. No exception is built from a status code, the default headers of the session
  are left as they were, and nothing is sent again.
\<close>

theorem skip_roblox_returns_raw:
  assumes "skip_roblox kw" and "request T method kw self = (res, self')"
  shows "length (trace self') = Suc (length (trace self))
         \<and> fst (last (trace self'))
             = \<lparr>w_method = lower method, w_args = args kw, w_stream = stream kw\<rparr>
         \<and> res = (case snd (last (trace self')) of
                    Inl e \<Rightarrow> Inl (TransportError e)
                  | Inr r \<Rightarrow> Inr r)
         \<and> (\<forall>code r errs. res \<noteq> Inl (HTTPException code r errs))
         \<and> session_headers self' = session_headers self"
  using assms
  by (auto simp: step_defs split: prod.splits sum.splits if_splits)

text \<open>
  A POST with \<open>skip_roblox\<close> set, answered by a 403 that carries the token header: the
  403 is returned, the session has no token header afterwards and the second response is
  never asked for.
\<close>

theorem skip_roblox_returns_raw_witness:
  "skip_roblox ((default_kwargs ''u'')\<lparr>skip_roblox := True\<rparr>)
   \<and> session_headers (snd (request scripted ''POST'' ((default_kwargs ''u'')\<lparr>skip_roblox := True\<rparr>)
        (client [Inr forbidden_with_token, Inr ok_plain])))
      = session_headers (client [Inr forbidden_with_token, Inr ok_plain])
   \<and> fst (request scripted ''POST'' ((default_kwargs ''u'')\<lparr>skip_roblox := True\<rparr>)
        (client [Inr forbidden_with_token, Inr ok_plain])) = Inr forbidden_with_token
   \<and> map snd (trace (snd (request scripted ''POST'' ((default_kwargs ''u'')\<lparr>skip_roblox := True\<rparr>)
        (client [Inr forbidden_with_token, Inr ok_plain])))) = [Inr forbidden_with_token]"
proof -
  let ?kw = "(default_kwargs ''u'' :: string kwargs)\<lparr>skip_roblox := True\<rparr>"
  let ?self = "client [Inr forbidden_with_token, Inr ok_plain]"
  let ?run = "request scripted ''POST'' ?kw ?self"
  have a: "skip_roblox ?kw"
    by simp
  have g: "?run = (fst ?run, snd ?run)"
    by simp
  note run = skip_roblox_returns_raw [OF a g]
  have ev: "fst ?run = Inr forbidden_with_token
            \<and> map snd (trace (snd ?run)) = [Inr forbidden_with_token]"
    by (simp add: eval_defs sample_defs)
  from run a ev show ?thesis by blast
qed

subsection \<open>C5: a streamed call still handles the token\<close>

text \<open>
  Claim C5, as amended. For every call with \<open>stream\<close> set whose first send is answered,
  the token step is not skipped. When \<open>skip_roblox\<close> is not set, \<open>handle_xcsrf_token\<close> is
  enabled, the method is unsafe and the first response carries the token header, the token
  is stored in the default headers of the session, and the request is sent again once if
  the status is 403, as on a call that is not streamed. In every other case the default
  headers are left as they were, the transport is called once and the first response is
  returned. In both cases the call then ends with the outcome of the last send, without
  building an exception from the status.
\<close>

theorem stream_after_token_step:
  assumes "stream kw"
    and "session_request T \<lparr>w_method = lower method, w_args = args kw, w_stream = stream kw\<rparr> self
           = (Inr first, sent)"
    and "request T method kw self = (res, self')"
  shows "(if \<not> skip_roblox kw \<and> handle_xcsrf_token kw
             \<and> xcsrf_allowed_methods (lower method) = Some True
             \<and> ci_contains (headers first) (xcsrf_token_name self)
          then (\<exists>token. ci_getitem (headers first) (xcsrf_token_name self) = Some token
                  \<and> session_headers self'
                      = ci_setitem (session_headers self) (xcsrf_token_name self) token)
               \<and> length (trace self')
                   = length (trace self) + (if status_code first = 403 then 2 else 1)
          else session_headers self' = session_headers self
               \<and> length (trace self') = length (trace self) + 1
               \<and> res = Inr first)
         \<and> res = (case snd (last (trace self')) of
                    Inl e \<Rightarrow> Inl (TransportError e)
                  | Inr r \<Rightarrow> Inr r)"
  using assms
  by (auto simp: Let_def request_def request_token_step_def session_request_def
                 request_translate_def ci_contains_def ci_getitem_def
           split: prod.splits sum.splits if_splits option.splits)

text \<open>
  A streamed PUT answered by a 403 with the token header and then by a plain 403: the
  token is stored, the request is sent twice and the second 403 is returned as a response.
\<close>

theorem stream_after_token_step_witness:
  "stream ((default_kwargs ''u'')\<lparr>stream := True\<rparr>)
   \<and> ci_getitem (session_headers (snd (request scripted ''PUT'' ((default_kwargs ''u'')\<lparr>stream := True\<rparr>)
        (client [Inr forbidden_with_token, Inr forbidden_plain])))) ''X-CSRF-Token'' = Some ''abc''
   \<and> fst (request scripted ''PUT'' ((default_kwargs ''u'')\<lparr>stream := True\<rparr>)
        (client [Inr forbidden_with_token, Inr forbidden_plain])) = Inr forbidden_plain
   \<and> length (trace (snd (request scripted ''PUT'' ((default_kwargs ''u'')\<lparr>stream := True\<rparr>)
        (client [Inr forbidden_with_token, Inr forbidden_plain])))) = 2"
proof -
  let ?kw = "(default_kwargs ''u'' :: string kwargs)\<lparr>stream := True\<rparr>"
  let ?self = "client [Inr forbidden_with_token, Inr forbidden_plain]"
  let ?w = "\<lparr>w_method = lower ''PUT'', w_args = args ?kw, w_stream = stream ?kw\<rparr>"
  let ?run = "request scripted ''PUT'' ?kw ?self"
  have a: "stream ?kw"
    by simp
  have d: "session_request scripted ?w ?self
             = (Inr forbidden_with_token, snd (session_request scripted ?w ?self))"
    by (simp add: session_request_def scripted_def client_def init_def)
  have g: "?run = (fst ?run, snd ?run)"
    by simp
  note run = stream_after_token_step [OF a d g]
  have ev: "ci_getitem (session_headers (snd ?run)) ''X-CSRF-Token'' = Some ''abc''
            \<and> fst ?run = Inr forbidden_plain
            \<and> length (trace (snd ?run)) = 2"
    by (simp add: eval_defs sample_defs)
  from run a ev show ?thesis by blast
qed

text \<open>
  Claim C5 as it is written fails: on a streamed POST answered by a 403 with the token
  header, the token is stored in the session and the request is sent a second time.
\<close>

theorem stream_still_handles_token:
  "stream ((default_kwargs ''u'')\<lparr>stream := True\<rparr>)
   \<and> ci_getitem (session_headers (client [Inr forbidden_with_token, Inr ok_plain]))
        ''X-CSRF-Token'' = None
   \<and> ci_getitem (session_headers (snd (request scripted ''POST''
        ((default_kwargs ''u'')\<lparr>stream := True\<rparr>)
        (client [Inr forbidden_with_token, Inr ok_plain])))) ''X-CSRF-Token'' = Some ''abc''
   \<and> map snd (trace (snd (request scripted ''POST'' ((default_kwargs ''u'')\<lparr>stream := True\<rparr>)
        (client [Inr forbidden_with_token, Inr ok_plain]))))
      = [Inr forbidden_with_token, Inr ok_plain]
   \<and> fst (request scripted ''POST'' ((default_kwargs ''u'')\<lparr>stream := True\<rparr>)
        (client [Inr forbidden_with_token, Inr ok_plain])) = Inr ok_plain"
  by (simp add: eval_defs sample_defs)

subsection \<open>C6: a streamed response is returned whatever its status\<close>

text \<open>
  Claim C6. For every call with \<open>stream\<close> set, the call ends with the outcome of the last
  send: a response is returned as it is, whatever its status code, and only an error of
  the transport is raised. No exception is built from a status code.
\<close>

theorem stream_never_translated:
  assumes "stream kw" and "request T method kw self = (res, self')"
  shows "res = (case snd (last (trace self')) of
                  Inl e \<Rightarrow> Inl (TransportError e)
                | Inr r \<Rightarrow> Inr r)
         \<and> (\<forall>code r errs. res \<noteq> Inl (HTTPException code r errs))"
  using assms
  by (auto simp: step_defs ci_contains_def ci_getitem_def
           split: prod.splits sum.splits if_splits option.splits)

text \<open>A streamed GET answered by a 500 with a JSON body: the 500 is returned.\<close>

theorem stream_never_translated_witness:
  "stream ((default_kwargs ''u'')\<lparr>stream := True\<rparr>)
   \<and> status_code server_error_json = 500
   \<and> fst (request scripted ''GET'' ((default_kwargs ''u'')\<lparr>stream := True\<rparr>)
        (client [Inr server_error_json])) = Inr server_error_json"
proof -
  let ?kw = "(default_kwargs ''u'' :: string kwargs)\<lparr>stream := True\<rparr>"
  let ?self = "client [Inr server_error_json]"
  let ?run = "request scripted ''GET'' ?kw ?self"
  have a: "stream ?kw"
    by simp
  have g: "?run = (fst ?run, snd ?run)"
    by simp
  note run = stream_never_translated [OF a g]
  have e: "status_code server_error_json = 500"
    by (simp add: sample_defs mk_response_def)
  have ev: "fst ?run = Inr server_error_json"
    by (simp add: eval_defs sample_defs)
  from run a e ev show ?thesis by blast
qed

subsection \<open>C7: a failed response whose JSON body is no dictionary\<close>

text \<open>
  Claim C7 says that every call that is neither streamed nor skipped and whose effective
  response has a status of 400 or more raises the exception of that status. The code does
  so when the decoded body is a dictionary or is falsy (see \<open>request_server_error_json\<close>
  for the example of the claim). When the body decodes to a truthy value that is no
  dictionary, line 134 calls \<^verbatim>\<open>.get\<close> on it: for a 500 with the JSON body \<^verbatim>\<open>[1]\<close> the
  call raises \<^verbatim>\<open>AttributeError\<close> and no exception of the status.
\<close>

theorem non_dict_error_body_raises_AttributeError:
  "status_code server_error_list = 500
   \<and> ci_get (headers server_error_list) ''Content-Type'' = Some ''application/json''
   \<and> json server_error_list = Decoded (PyList [PyInt 1])
   \<and> fst (request scripted ''GET'' (default_kwargs ''u'') (client [Inr server_error_list]))
      = Inl AttributeError"
  by (simp add: eval_defs sample_defs)

subsection \<open>C8: a body that does not parse\<close>




subsection \<open>C9: the method is lower-cased for the transport as well\<close>

text \<open>
  Claim C9, as amended. For every call whose method is an ASCII string, the method is
  lower-cased once (line 104), and the lower-case form is used for the comparison with the
  unsafe methods, so a call behaves the same for spellings that differ in letter case
  only, POST and post for one. The lower-case form is also the method handed to the
  transport session on every send. The method that reaches the server, which the
  \<^verbatim>\<open>requests\<close> library upper-cases, is the one the spelling of the caller would have
  given: the lower-casing does not change it.
\<close>

theorem method_lowered_for_transport:
  assumes "is_ascii method"
  shows "request T method kw self = request T (lower method) kw self
         \<and> list_all
             (\<lambda>x. w_method (fst x) = lower method
                 \<and> sent_method (fst x)
                     = sent_method \<lparr>w_method = method, w_args = args kw, w_stream = stream kw\<rparr>)
             (drop (length (trace self)) (trace (snd (request T method kw self))))"
  by (auto simp: Let_def request_def request_token_step_def session_request_def lower_idem
                 sent_method_def upper_lower
           split: prod.splits sum.splits if_splits option.splits)

text \<open>
  The spellings POST and post of a call answered by a 403 with the token header and then
  by a 200: the same outcome and the same final state, two sends, each handed the method
  post and each reaching the server as POST.
\<close>

theorem method_lowered_for_transport_witness:
  "is_ascii ''POST''
   \<and> lower ''POST'' = ''post''
   \<and> request scripted ''POST'' (default_kwargs ''u'') (client [Inr forbidden_with_token, Inr ok_plain])
      = request scripted ''post'' (default_kwargs ''u'') (client [Inr forbidden_with_token, Inr ok_plain])
   \<and> map (\<lambda>x. w_method (fst x)) (trace (snd (request scripted ''POST'' (default_kwargs ''u'')
        (client [Inr forbidden_with_token, Inr ok_plain])))) = [''post'', ''post'']
   \<and> map (\<lambda>x. sent_method (fst x)) (trace (snd (request scripted ''POST'' (default_kwargs ''u'')
        (client [Inr forbidden_with_token, Inr ok_plain])))) = [''POST'', ''POST'']"
proof -
  let ?kw = "default_kwargs ''u'' :: string kwargs"
  let ?self = "client [Inr forbidden_with_token, Inr ok_plain]"
  have a: "is_ascii ''POST''"
    by (simp add: is_ascii_def)
  have l: "lower ''POST'' = ''post''"
    by (simp add: lower_def lower_char_def)
  note run = method_lowered_for_transport [OF a, of scripted ?kw ?self]
  from run l have same: "request scripted ''POST'' ?kw ?self = request scripted ''post'' ?kw ?self"
    by simp
  have ev: "map (\<lambda>x. w_method (fst x)) (trace (snd (request scripted ''POST'' ?kw ?self)))
              = [''post'', ''post'']
            \<and> map (\<lambda>x. sent_method (fst x)) (trace (snd (request scripted ''POST'' ?kw ?self)))
              = [''POST'', ''POST'']"
    by (simp add: eval_defs sample_defs sent_method_def upper_def upper_char_def)
  from a l same ev show ?thesis by blast
qed

text \<open>
  Claim C9 as it is written fails in its first half: the lower-casing is not kept to the
  comparisons. A call with the method POST hands the method post, and not POST, to
  \<^verbatim>\<open>self.session.request\<close>.
\<close>

theorem transport_receives_lowercase:
  "w_method (fst (last (trace (snd (request scripted ''POST'' (default_kwargs ''u'')
      (client [Inr ok_plain])))))) = ''post''
   \<and> w_method (fst (last (trace (snd (request scripted ''POST'' (default_kwargs ''u'')
      (client [Inr ok_plain])))))) \<noteq> ''POST''"
  by (simp add: eval_defs sample_defs)

subsection \<open>C10: the token kept after a resend is the one of the first response\<close>

text \<open>
  Claim C10. When a call sends its request a second time (the trace grows by two), the
  first send was answered by a response carrying the token header, and the default headers
  of the session after the call are the ones before it with the token header set to the
  value of that first response. The response to the resend has no part in them, whatever
  headers it carries.
\<close>

theorem resend_keeps_first_token:
  assumes "request T method kw self = (res, self')"
    and "length (trace self') = length (trace self) + 2"
  shows "\<exists>first token.
           fst (session_request T
                  \<lparr>w_method = lower method, w_args = args kw, w_stream = stream kw\<rparr> self)
             = Inr first
         \<and> status_code first = 403
         \<and> ci_getitem (headers first) (xcsrf_token_name self) = Some token
         \<and> session_headers self'
             = ci_setitem (session_headers self) (xcsrf_token_name self) token"
  using assms
  by (auto simp: Let_def request_def request_token_step_def session_request_def
                 ci_contains_def ci_getitem_def
           split: prod.splits sum.splits if_splits option.splits)

text \<open>
  A PATCH answered by a 403 with the token \<^verbatim>\<open>abc\<close> and, on the resend, by a 200 with the
  token \<^verbatim>\<open>xyz\<close>: the session keeps \<^verbatim>\<open>abc\<close>.
\<close>

theorem resend_keeps_first_token_witness:
  "length (trace (snd (request scripted ''PATCH'' (default_kwargs ''u'')
      (client [Inr forbidden_with_token, Inr ok_with_token]))))
     = length (trace (client [Inr forbidden_with_token, Inr ok_with_token])) + 2
   \<and> ci_getitem (headers forbidden_with_token) ''X-CSRF-Token'' = Some ''abc''
   \<and> ci_getitem (headers ok_with_token) ''X-CSRF-Token'' = Some ''xyz''
   \<and> fst (request scripted ''PATCH'' (default_kwargs ''u'')
        (client [Inr forbidden_with_token, Inr ok_with_token])) = Inr ok_with_token
   \<and> ci_getitem (session_headers (snd (request scripted ''PATCH'' (default_kwargs ''u'')
        (client [Inr forbidden_with_token, Inr ok_with_token])))) ''X-CSRF-Token'' = Some ''abc''"
proof -
  let ?kw = "default_kwargs ''u'' :: string kwargs"
  let ?self = "client [Inr forbidden_with_token, Inr ok_with_token]"
  let ?run = "request scripted ''PATCH'' ?kw ?self"
  have g: "?run = (fst ?run, snd ?run)"
    by simp
  have l: "length (trace (snd ?run)) = length (trace ?self) + 2"
    by (simp add: eval_defs sample_defs)
  note run = resend_keeps_first_token [OF g l]
  have e: "ci_getitem (headers forbidden_with_token) ''X-CSRF-Token'' = Some ''abc''
           \<and> ci_getitem (headers ok_with_token) ''X-CSRF-Token'' = Some ''xyz''"
    by (simp add: eval_defs sample_defs)
  have ev: "fst ?run = Inr ok_with_token
            \<and> ci_getitem (session_headers (snd ?run)) ''X-CSRF-Token'' = Some ''abc''"
    by (simp add: eval_defs sample_defs)
  from run l e ev show ?thesis by blast
qed

end
